theory Spec2Isabelle
  imports Main
begin


section \<open>Exceptions\<close>

text \<open>
  The exception classes the two modules raise or catch, each with what its text
  (\<open>str(e)\<close>) is made of: the message for most, the key for \<open>KeyError\<close>, the status code
  and the detail for \<open>HTTPException\<close>. \<open>NameError\<close> carries the name that is not bound.
  \<open>OtherException\<close> stands for every other subclass of \<open>Exception\<close>.
\<close>

datatype exn =
    ValueError string
  | PermissionError string
  | KeyError string
  | AttributeError string
  | NameError string
  | RuntimeError string
  | WebSocketDisconnect
  | HTTPException nat string
  | OtherException string

text \<open>\<open>str(n)\<close> for a natural number: its decimal digits.\<close>

function str_nat :: "nat \<Rightarrow> string" where
  "str_nat n = (if n < 10 then [char_of (48 + n)] else str_nat (n div 10) @ [char_of (48 + n mod 10)])"
  by pat_completeness auto
termination
  by (relation "measure (\<lambda>n. n)") auto

text \<open>
  \<open>str(e)\<close>: the text of a \<open>KeyError\<close> is the key in quotes, that of an
  \<open>HTTPException\<close> is the status code, a colon and the detail, and that of a
  \<open>WebSocketDisconnect\<close> raised with no argument is empty.
\<close>

fun str_exn :: "exn \<Rightarrow> string" where
  "str_exn (ValueError m) = m"
| "str_exn (PermissionError m) = m"
| "str_exn (KeyError k) = [CHR 0x27] @ k @ [CHR 0x27]"
| "str_exn (AttributeError m) = m"
| "str_exn (NameError name) =
     ''name '' @ [CHR 0x27] @ name @ [CHR 0x27] @ '' is not defined''"
| "str_exn (RuntimeError m) = m"
| "str_exn WebSocketDisconnect = []"
| "str_exn (HTTPException c d) = str_nat c @ '': '' @ d"
| "str_exn (OtherException m) = m"

section \<open>users.py: the user store\<close>

subsection \<open>Data\<close>

text \<open>
  What the module reads from outside itself: the environment variable
  \<open>ADMIN_USERNAME\<close> (after \<open>load_dotenv\<close>), Python's \<open>str.lower\<close>, passlib's
  \<open>bcrypt.hash\<close> and \<open>bcrypt.verify\<close>, and the identifier \<open>str(uuid.uuid4())\<close>
  drawn by the operation. They are parameters of the model, fixed during one operation.
\<close>

record env =
  ADMIN_USERNAME :: "string option"
  lower :: "string \<Rightarrow> string"
  bcrypt_hash :: "string \<Rightarrow> string"
  bcrypt_verify :: "string \<Rightarrow> string \<Rightarrow> bool"
  uuid4 :: string

text \<open>The pydantic models \<open>User\<close>, \<open>UserCreate\<close>, \<open>UserUpdate\<close> as the code uses them.\<close>

record User =
  user_id :: string
  username :: string
  password_hash :: string
  display_name :: "string option"
  is_admin :: bool
  is_owner :: bool
  is_pet :: bool
  avatar_url :: "string option"

record UserCreate =
  uc_username :: string
  uc_password :: string
  uc_display_name :: "string option"
  uc_is_admin :: bool
  uc_is_pet :: bool

record UserUpdate =
  uu_display_name :: "string option"
  uu_is_admin :: "bool option"
  uu_is_pet :: "bool option"
  uu_current_password :: "string option"
  uu_new_password :: "string option"
  uu_avatar_url :: "string option"

text \<open>
  One entry of \<open>users.json\<close>. The keys \<open>is_owner\<close> and \<open>is_pet\<close> may be missing
  (old format); the other keys are the ones \<open>User(**user_dict)\<close> needs.
  The file itself is absent (\<open>None\<close>) or holds a list of entries.
\<close>

record user_dict =
  d_id :: string
  d_username :: string
  d_password_hash :: string
  d_display_name :: "string option"
  d_is_admin :: bool
  d_is_owner :: "bool option"
  d_is_pet :: "bool option"
  d_avatar_url :: "string option"

type_synonym users_file = "user_dict list option"

subsection \<open>Owner username\<close>

definition get_owner_username :: "env \<Rightarrow> string" where
  "get_owner_username e = (case ADMIN_USERNAME e of None \<Rightarrow> ''admin'' | Some s \<Rightarrow> s)"

definition is_owner_username :: "env \<Rightarrow> string \<Rightarrow> bool" where
  "is_owner_username e name = (lower e name = lower e (get_owner_username e))"

subsection \<open>Reading and writing the file\<close>

text \<open>The body of the loop of \<open>get_users\<close>: fill the missing keys, force the owner's flags.\<close>

definition load_user :: "env \<Rightarrow> user_dict \<Rightarrow> User" where
  "load_user e d =
     (let owner0 = (case d_is_owner d of None \<Rightarrow> False | Some b \<Rightarrow> b);
          pet0 = (case d_is_pet d of None \<Rightarrow> False | Some b \<Rightarrow> b);
          forced = is_owner_username e (d_username d)
      in \<lparr> user_id = d_id d, username = d_username d,
           password_hash = d_password_hash d, display_name = d_display_name d,
           is_admin = (if forced then True else d_is_admin d),
           is_owner = (if forced then True else owner0),
           is_pet = pet0, avatar_url = d_avatar_url d \<rparr>)"

definition get_users :: "env \<Rightarrow> users_file \<Rightarrow> User list" where
  "get_users e file = (case file of None \<Rightarrow> [] | Some users_data \<Rightarrow> map (load_user e) users_data)"

text \<open>\<open>user.dict()\<close>: every key is written.\<close>

definition dict_of :: "User \<Rightarrow> user_dict" where
  "dict_of u =
     \<lparr> d_id = user_id u, d_username = username u, d_password_hash = password_hash u,
       d_display_name = display_name u, d_is_admin = is_admin u,
       d_is_owner = Some (is_owner u), d_is_pet = Some (is_pet u),
       d_avatar_url = avatar_url u \<rparr>"

text \<open>
  The loop of \<open>save_users\<close> assigns to the \<open>User\<close> objects of the list in place;
  \<open>force_owner_flags\<close> is the list after the loop.
\<close>

fun force_owner_flags :: "env \<Rightarrow> User list \<Rightarrow> User list" where
  "force_owner_flags e [] = []"
| "force_owner_flags e (user # users) =
     (if is_owner_username e (username user)
      then user\<lparr>is_owner := True, is_admin := True\<rparr>
      else user) # force_owner_flags e users"

text \<open>\<open>save_users\<close> returns the objects as it left them and the new content of the file.\<close>

definition save_users :: "env \<Rightarrow> User list \<Rightarrow> User list \<times> users_file" where
  "save_users e users =
     (let users' = force_owner_flags e users in (users', Some (map dict_of users')))"

fun get_user_by_username_loop :: "env \<Rightarrow> string \<Rightarrow> User list \<Rightarrow> User option" where
  "get_user_by_username_loop e name [] = None"
| "get_user_by_username_loop e name (user # users) =
     (if lower e (username user) = lower e name then Some user
      else get_user_by_username_loop e name users)"

definition get_user_by_username :: "env \<Rightarrow> string \<Rightarrow> users_file \<Rightarrow> User option" where
  "get_user_by_username e name file = get_user_by_username_loop e name (get_users e file)"

fun get_user_by_id_loop :: "string \<Rightarrow> User list \<Rightarrow> User option" where
  "get_user_by_id_loop uid [] = None"
| "get_user_by_id_loop uid (user # users) =
     (if user_id user = uid then Some user else get_user_by_id_loop uid users)"

definition get_user_by_id :: "env \<Rightarrow> string \<Rightarrow> users_file \<Rightarrow> User option" where
  "get_user_by_id e uid file = get_user_by_id_loop uid (get_users e file)"

subsection \<open>create_user\<close>

text \<open>
  Every operation returns its result, an exception (\<open>Inl\<close>) or a value (\<open>Inr\<close>),
  together with the content of the file afterwards.
  \<open>new_user_record\<close> is the \<open>User\<close> that \<open>create_user\<close> builds, with the permissions it
  determines.
\<close>

definition new_user_record :: "env \<Rightarrow> UserCreate \<Rightarrow> User" where
  "new_user_record e user_create =
     (let owner_name = is_owner_username e (uc_username user_create)
      in \<lparr> user_id = uuid4 e, username = uc_username user_create,
           password_hash = bcrypt_hash e (uc_password user_create),
           display_name = uc_display_name user_create,
           is_admin = (if owner_name then True else uc_is_admin user_create),
           is_owner = (if owner_name then True else False),
           is_pet = (if owner_name then False else uc_is_pet user_create),
           avatar_url = None \<rparr>)"

text \<open>
  The value returned is the object appended to the list, as \<open>save_users\<close> left it.
\<close>

definition create_user ::
  "env \<Rightarrow> UserCreate \<Rightarrow> User option \<Rightarrow> users_file \<Rightarrow> (exn + User) \<times> users_file" where
  "create_user e user_create requesting_user file =
     (let users = get_users e file in
      if get_user_by_username e (uc_username user_create) file \<noteq> None
      then (Inl (ValueError (''Username '' @ [CHR 0x27] @ uc_username user_create @ [CHR 0x27]
                              @ '' already exists'')), file)
      else if is_owner_username e (uc_username user_create) \<and> requesting_user \<noteq> None
      then (Inl (PermissionError (''Cannot create user with owner username. ''
                                   @ ''Owner account must be created via initial setup.'')), file)
      else
        let new_user = new_user_record e user_create;
            (saved, file') = save_users e (users @ [new_user])
        in (Inr (last saved), file'))"

subsection \<open>update_user\<close>

text \<open>Truth value of an optional string: \<open>None\<close> and the empty string are false.\<close>

definition str_truthy :: "string option \<Rightarrow> bool" where
  "str_truthy s = (case s of None \<Rightarrow> False | Some t \<Rightarrow> t \<noteq> [])"

text \<open>
  The body of the loop of \<open>update_user\<close> for the record whose id matches: the checks in
  the order of the source, then the record that replaces it.
\<close>

definition update_user_body :: "env \<Rightarrow> UserUpdate \<Rightarrow> User option \<Rightarrow> User \<Rightarrow> exn + User" where
  "update_user_body e user_update requesting_user user =
     (if is_owner user \<and> uu_is_admin user_update = Some False
      then Inl (PermissionError ''Cannot remove admin privileges from owner'')
      else if (case requesting_user of None \<Rightarrow> False
               | Some r \<Rightarrow> is_admin user \<and> user_id r \<noteq> user_id user \<and> \<not> is_owner r)
      then Inl (PermissionError ''Only the owner can modify admin accounts'')
      else if str_truthy (uu_current_password user_update) \<and> str_truthy (uu_new_password user_update)
              \<and> \<not> bcrypt_verify e (the (uu_current_password user_update)) (password_hash user)
      then Inl (ValueError ''Current password is incorrect'')
      else
        let new_hash =
              (if str_truthy (uu_current_password user_update) \<and> str_truthy (uu_new_password user_update)
               then bcrypt_hash e (the (uu_new_password user_update))
               else password_hash user);
            new_is_owner = is_owner_username e (username user);
            new_is_admin =
              (if new_is_owner then True
               else (case uu_is_admin user_update of Some b \<Rightarrow> b | None \<Rightarrow> is_admin user));
            new_is_pet = (case uu_is_pet user_update of Some b \<Rightarrow> b | None \<Rightarrow> is_pet user)
        in Inr \<lparr> user_id = user_id user, username = username user, password_hash = new_hash,
                 display_name = (case uu_display_name user_update of Some n \<Rightarrow> Some n
                                 | None \<Rightarrow> display_name user),
                 is_admin = new_is_admin, is_owner = new_is_owner, is_pet = new_is_pet,
                 avatar_url = (case uu_avatar_url user_update of Some a \<Rightarrow> Some a
                               | None \<Rightarrow> avatar_url user) \<rparr>)"

text \<open>
  \<open>for i, user in enumerate(users)\<close>: \<open>users\<close> is the whole list, \<open>i\<close> the index
  reached and the last list what is left to visit. The value returned is the object
  stored at index \<open>i\<close>, as \<open>save_users\<close> left it.
\<close>

fun update_user_loop ::
  "env \<Rightarrow> string \<Rightarrow> UserUpdate \<Rightarrow> User option \<Rightarrow> users_file \<Rightarrow> User list \<Rightarrow> nat \<Rightarrow> User list
     \<Rightarrow> (exn + User option) \<times> users_file" where
  "update_user_loop e uid user_update requesting_user file users i [] = (Inr None, file)"
| "update_user_loop e uid user_update requesting_user file users i (user # rest) =
     (if user_id user = uid then
        (case update_user_body e user_update requesting_user user of
           Inl x \<Rightarrow> (Inl x, file)
         | Inr updated_user \<Rightarrow>
             (let (saved, file') = save_users e (users[i := updated_user])
              in (Inr (Some (saved ! i)), file')))
      else update_user_loop e uid user_update requesting_user file users (Suc i) rest)"

definition update_user ::
  "env \<Rightarrow> string \<Rightarrow> UserUpdate \<Rightarrow> User option \<Rightarrow> users_file \<Rightarrow> (exn + User option) \<times> users_file" where
  "update_user e uid user_update requesting_user file =
     (let users = get_users e file
      in update_user_loop e uid user_update requesting_user file users 0 users)"

subsection \<open>delete_user\<close>

text \<open>
  The search loop of \<open>delete_user\<close> is the loop of \<open>get_user_by_id\<close>: the first record
  with the id.
\<close>

definition delete_user ::
  "env \<Rightarrow> string \<Rightarrow> User option \<Rightarrow> users_file \<Rightarrow> (exn + bool) \<times> users_file" where
  "delete_user e uid requesting_user file =
     (let users = get_users e file in
      case get_user_by_id_loop uid users of
        None \<Rightarrow> (Inr False, file)
      | Some user_to_delete \<Rightarrow>
          if is_owner user_to_delete
          then (Inl (PermissionError ''Cannot delete the owner account''), file)
          else if (case requesting_user of None \<Rightarrow> False
                   | Some r \<Rightarrow> is_admin user_to_delete \<and> \<not> is_owner r)
          then (Inl (PermissionError ''Only the owner can delete admin accounts''), file)
          else
            let users' = filter (\<lambda>user. user_id user \<noteq> uid) users in
            if length users' < length users
            then (let (saved, file') = save_users e users' in (Inr True, file'))
            else (Inr False, file))"

subsection \<open>main.py: the user endpoints\<close>

record UserResponse =
  ur_id :: string
  ur_username :: string
  ur_display_name :: "string option"
  ur_is_admin :: bool
  ur_avatar_url :: "string option"

definition user_response :: "User \<Rightarrow> UserResponse" where
  "user_response u =
     \<lparr> ur_id = user_id u, ur_username = username u, ur_display_name = display_name u,
       ur_is_admin = is_admin u, ur_avatar_url = avatar_url u \<rparr>"

text \<open>
  \<open>add_user\<close> calls \<open>create_user(user_create)\<close> and \<open>remove_user\<close> calls
  \<open>delete_user(user_id)\<close>: the parameter \<open>requesting_user\<close> takes its default \<open>None\<close>.
  \<open>remove_user\<close> has no handler, so an exception of \<open>delete_user\<close> leaves it as it is.
\<close>

definition add_user ::
  "env \<Rightarrow> UserCreate \<Rightarrow> User \<Rightarrow> users_file \<Rightarrow> (exn + UserResponse) \<times> users_file" where
  "add_user e user_create current_user file =
     (if \<not> is_admin current_user
      then (Inl (HTTPException 403 ''Admin privileges required''), file)
      else
        (case create_user e user_create None file of
           (Inr new_user, file') \<Rightarrow> (Inr (user_response new_user), file')
         | (Inl (ValueError m), file') \<Rightarrow> (Inl (HTTPException 400 m), file')
         | (Inl x, file') \<Rightarrow>
             (Inl (HTTPException 500 (''Failed to create user: '' @ str_exn x)), file')))"

definition remove_user ::
  "env \<Rightarrow> string \<Rightarrow> User \<Rightarrow> users_file \<Rightarrow> (exn + string) \<times> users_file" where
  "remove_user e uid current_user file =
     (if \<not> is_admin current_user
      then (Inl (HTTPException 403 ''Admin privileges required''), file)
      else if uid = user_id current_user
      then (Inl (HTTPException 400 ''Cannot delete your own account''), file)
      else
        (case delete_user e uid None file of
           (Inl x, file') \<Rightarrow> (Inl x, file')
         | (Inr success, file') \<Rightarrow>
             if \<not> success then (Inl (HTTPException 404 ''User not found''), file')
             else (Inr ''User deleted successfully'', file')))"

subsection \<open>A concrete environment and store\<close>

text \<open>
  For the examples: no \<open>ADMIN_USERNAME\<close> is set, so the owner is \<open>admin\<close>;
  \<open>str.lower\<close> on ASCII letters; a stand-in for bcrypt.
\<close>

definition ascii_lower_char :: "char \<Rightarrow> char" where
  "ascii_lower_char c =
     (let n = (of_char c :: nat) in if 65 \<le> n \<and> n \<le> 90 then char_of (n + 32) else c)"

definition env0 :: env where
  "env0 = \<lparr> ADMIN_USERNAME = None, lower = map ascii_lower_char,
            bcrypt_hash = (\<lambda>p. ''$2b$'' @ p),
            bcrypt_verify = (\<lambda>p h. h = ''$2b$'' @ p),
            uuid4 = ''id-new'' \<rparr>"

definition owner_rec :: user_dict where
  "owner_rec = \<lparr> d_id = ''id-owner'', d_username = ''Admin'', d_password_hash = ''$2b$secret'',
                 d_display_name = Some ''Administrator'', d_is_admin = False,
                 d_is_owner = None, d_is_pet = None, d_avatar_url = None \<rparr>"

definition alice_rec :: user_dict where
  "alice_rec = \<lparr> d_id = ''id-alice'', d_username = ''alice'', d_password_hash = ''$2b$a'',
                 d_display_name = None, d_is_admin = True,
                 d_is_owner = Some False, d_is_pet = Some False, d_avatar_url = None \<rparr>"

definition bob_rec :: user_dict where
  "bob_rec = \<lparr> d_id = ''id-bob'', d_username = ''bob'', d_password_hash = ''$2b$b'',
               d_display_name = None, d_is_admin = True,
               d_is_owner = Some False, d_is_pet = Some False, d_avatar_url = None \<rparr>"

text \<open>An entry with \<open>is_owner\<close> set on a username that is not the owner's.\<close>

definition mallory_rec :: user_dict where
  "mallory_rec = \<lparr> d_id = ''id-mallory'', d_username = ''mallory'', d_password_hash = ''$2b$m'',
                   d_display_name = None, d_is_admin = False,
                   d_is_owner = Some True, d_is_pet = Some False, d_avatar_url = None \<rparr>"

definition file0 :: users_file where
  "file0 = Some [owner_rec, alice_rec, bob_rec]"


text \<open>Example inputs of the operations.\<close>

definition corrupt_owner :: User where
  "corrupt_owner = \<lparr> user_id = ''id-owner'', username = ''Admin'', password_hash = ''$2b$secret'',
                      display_name = None, is_admin = False, is_owner = False, is_pet = False,
                      avatar_url = None \<rparr>"

definition create_owner :: UserCreate where
  "create_owner = \<lparr> uc_username = ''ADMIN'', uc_password = ''x'', uc_display_name = None,
                     uc_is_admin = False, uc_is_pet = True \<rparr>"

definition create_alice :: UserCreate where
  "create_alice = \<lparr> uc_username = ''ALICE'', uc_password = ''pw'', uc_display_name = Some ''Alice 2'',
                     uc_is_admin = True, uc_is_pet = False \<rparr>"

definition create_carol :: UserCreate where
  "create_carol = \<lparr> uc_username = ''carol'', uc_password = ''pw'', uc_display_name = None,
                     uc_is_admin = False, uc_is_pet = False \<rparr>"

definition rename_patch :: UserUpdate where
  "rename_patch = \<lparr> uu_display_name = Some ''Boss'', uu_is_admin = None, uu_is_pet = None,
                     uu_current_password = None, uu_new_password = None, uu_avatar_url = None \<rparr>"

definition revoke_patch :: UserUpdate where
  "revoke_patch = \<lparr> uu_display_name = None, uu_is_admin = Some False, uu_is_pet = None,
                     uu_current_password = None, uu_new_password = None, uu_avatar_url = None \<rparr>"

subsection \<open>Properties stated about the file\<close>

text \<open>Every entry with the owner's username has both flags set.\<close>

definition owner_flags_forced :: "env \<Rightarrow> users_file \<Rightarrow> bool" where
  "owner_flags_forced e file =
     (case file of None \<Rightarrow> True
      | Some ds \<Rightarrow> list_all (\<lambda>d. is_owner_username e (d_username d)
                                  \<longrightarrow> d_is_owner d = Some True \<and> d_is_admin d) ds)"

text \<open>Only entries with the owner's username have \<open>is_owner\<close> set.\<close>

definition only_owner_is_owner :: "env \<Rightarrow> users_file \<Rightarrow> bool" where
  "only_owner_is_owner e file =
     (case file of None \<Rightarrow> True
      | Some ds \<Rightarrow> list_all (\<lambda>d. d_is_owner d = Some True
                                  \<longrightarrow> is_owner_username e (d_username d)) ds)"

definition is_PermissionError :: "exn + 'a \<Rightarrow> bool" where
  "is_PermissionError res = (case res of Inl (PermissionError m) \<Rightarrow> True | _ \<Rightarrow> False)"

section \<open>main.py: ConnectionManager\<close>

subsection \<open>Connections and the transport\<close>

text \<open>
  A \<open>WebSocket\<close> object is known by its identity. What the registry cannot see is the
  transport: \<open>outcome\<close> says, for each connection, whether \<open>send_text\<close> returns (\<open>None\<close>)
  or raises, and \<open>sent\<close> is the list of messages delivered to each connection so far.
  One call of \<open>broadcast\<close> sends to each connection of the snapshot once.
\<close>

type_synonym websocket = nat

record net =
  outcome :: "websocket \<Rightarrow> exn option"
  sent :: "websocket \<Rightarrow> string list"

definition send_text :: "net \<Rightarrow> websocket \<Rightarrow> string \<Rightarrow> exn option \<times> net" where
  "send_text n ws message =
     (case outcome n ws of
        None \<Rightarrow> (None, n\<lparr>sent := (sent n)(ws := sent n ws @ [message])\<rparr>)
      | Some x \<Rightarrow> (Some x, n))"

text \<open>
  \<open>active_connections\<close> is a dict from group names to sets of connections. The weak set
  and the lock of the class hold no membership and are left out.
\<close>

record ConnectionManager =
  active_connections :: "string \<rightharpoonup> websocket set"

definition init_manager :: ConnectionManager where
  "init_manager = \<lparr> active_connections = [''all'' \<mapsto> {}, ''authenticated'' \<mapsto> {}] \<rparr>"

text \<open>
  \<open>connect\<close> after \<open>websocket.accept()\<close> has returned:
  \<open>self.active_connections[group]\<close> raises \<open>KeyError\<close> for a group that is not a key.
\<close>

definition connect :: "ConnectionManager \<Rightarrow> websocket \<Rightarrow> string \<Rightarrow> exn option \<times> ConnectionManager" where
  "connect m ws grp =
     (case active_connections m grp of
        None \<Rightarrow> (Some (KeyError grp), m)
      | Some group_set \<Rightarrow>
          (None, m\<lparr>active_connections := (active_connections m)(grp \<mapsto> insert ws group_set)\<rparr>))"

text \<open>
  \<open>disconnect\<close> discards the connection from the set of every group, then prints the size
  of \<open>self.active_connections['all']\<close>, which raises \<open>KeyError\<close> when there is no such key.
\<close>

definition disconnect :: "ConnectionManager \<Rightarrow> websocket \<Rightarrow> exn option \<times> ConnectionManager" where
  "disconnect m ws =
     (let m' = m\<lparr>active_connections :=
                    (\<lambda>group_name. map_option (\<lambda>group_set. group_set - {ws})
                                     (active_connections m group_name))\<rparr>
      in (case active_connections m' ''all'' of
            None \<Rightarrow> (Some (KeyError ''all''), m')
          | Some all_set \<Rightarrow> (None, m')))"

subsection \<open>broadcast\<close>

text \<open>
  The delivery loop over the snapshot \<open>connections\<close>; every handler of the \<open>try\<close> adds the
  connection to \<open>disconnected\<close>, and every exception of the model is an \<open>Exception\<close>.
\<close>

fun broadcast_loop :: "string \<Rightarrow> websocket list \<Rightarrow> net \<Rightarrow> websocket set \<Rightarrow> net \<times> websocket set" where
  "broadcast_loop message [] n disconnected = (n, disconnected)"
| "broadcast_loop message (connection # connections) n disconnected =
     (case send_text n connection message of
        (None, n') \<Rightarrow> broadcast_loop message connections n' disconnected
      | (Some WebSocketDisconnect, n') \<Rightarrow>
          broadcast_loop message connections n' (insert connection disconnected)
      | (Some (RuntimeError e), n') \<Rightarrow>
          broadcast_loop message connections n' (insert connection disconnected)
      | (Some e, n') \<Rightarrow>
          broadcast_loop message connections n' (insert connection disconnected))"

text \<open>The clean-up loop: an exception of \<open>disconnect\<close> ends it and leaves \<open>broadcast\<close>.\<close>

fun disconnect_each :: "websocket list \<Rightarrow> ConnectionManager \<Rightarrow> exn option \<times> ConnectionManager" where
  "disconnect_each [] m = (None, m)"
| "disconnect_each (conn # conns) m =
     (case disconnect m conn of
        (Some x, m') \<Rightarrow> (Some x, m')
      | (None, m') \<Rightarrow> disconnect_each conns m')"

text \<open>
  Python fixes no order for the iteration over a set: \<open>iter\<close> is the order taken, a
  parameter. \<open>iter_ok\<close> says that it lists each element of a finite set once.
  The result is the exception that leaves \<open>broadcast\<close>, if any, the registry and the transport.
\<close>

definition iter_ok :: "(websocket set \<Rightarrow> websocket list) \<Rightarrow> bool" where
  "iter_ok iter = (\<forall>A. finite A \<longrightarrow> set (iter A) = A \<and> distinct (iter A))"

definition broadcast ::
  "(websocket set \<Rightarrow> websocket list) \<Rightarrow> string \<Rightarrow> string \<Rightarrow> ConnectionManager \<Rightarrow> net
     \<Rightarrow> exn option \<times> ConnectionManager \<times> net" where
  "broadcast iter message grp m n =
     (case active_connections m grp of
        None \<Rightarrow> (None, m, n)
      | Some group_set \<Rightarrow>
          (let connections = iter group_set;
               (n', disconnected) = broadcast_loop message connections n {};
               (x, m') = disconnect_each (iter disconnected) m
           in (x, m', n')))"

text \<open>A registry with three connections in \<open>all\<close>, one of them also in \<open>authenticated\<close>.\<close>

definition manager3 :: ConnectionManager where
  "manager3 = snd (connect (snd (connect (snd (connect (snd (connect init_manager 1 ''all''))
                 2 ''all'')) 3 ''all'')) 2 ''authenticated'')"

text \<open>A transport on which connection 2 is closed.\<close>

definition net2closed :: net where
  "net2closed = \<lparr> outcome = (\<lambda>ws. if ws = 2 then Some (RuntimeError ''WebSocket is not connected'')
                                   else None),
                   sent = (\<lambda>ws. []) \<rparr>"

section \<open>main.py: the fronting endpoints\<close>

subsection \<open>JSON values\<close>

text \<open>
  Request bodies and the data of the collaborators are JSON values; a number is an integer
  here, and an object is the list of its keys with their values.
\<close>

datatype json =
    JNull
  | JBool bool
  | JNum int
  | JStr string
  | JList "json list"
  | JObj "(string \<times> json) list"

text \<open>The name of the Python type of a value, as error messages print it.\<close>

fun type_name :: "json \<Rightarrow> string" where
  "type_name JNull = ''NoneType''"
| "type_name (JBool b) = ''bool''"
| "type_name (JNum i) = ''int''"
| "type_name (JStr s) = ''str''"
| "type_name (JList xs) = ''list''"
| "type_name (JObj kvs) = ''dict''"

text \<open>
  \<open>d.get(key, default)\<close>: only a dict has the method, any other value raises
  \<open>AttributeError\<close>.
\<close>

definition py_get :: "json \<Rightarrow> string \<Rightarrow> json \<Rightarrow> exn + json" where
  "py_get d key dflt =
     (case d of
        JObj kvs \<Rightarrow> Inr (case map_of kvs key of None \<Rightarrow> dflt | Some v \<Rightarrow> v)
      | _ \<Rightarrow> Inl (AttributeError ([CHR 0x27] @ type_name d @ [CHR 0x27]
                               @ '' object has no attribute '' @ [CHR 0x27] @ ''get'' @ [CHR 0x27])))"

text \<open>The truth value of a JSON value, as \<open>not x\<close> reads it.\<close>

fun truthy :: "json \<Rightarrow> bool" where
  "truthy JNull = False"
| "truthy (JBool b) = b"
| "truthy (JNum i) = (i \<noteq> 0)"
| "truthy (JStr s) = (s \<noteq> [])"
| "truthy (JList xs) = (xs \<noteq> [])"
| "truthy (JObj kvs) = (kvs \<noteq> [])"

fun is_list :: "json \<Rightarrow> bool" where
  "is_list (JList xs) = True"
| "is_list v = False"

subsection \<open>Collaborators and the calls made to them\<close>

text \<open>
  What the handlers await from outside: the parsed request body, and the functions
  \<open>set_front\<close> and \<open>get_fronters\<close> of \<open>pluralkit\<close>, each of which returns or raises.
\<close>

record backend =
  request_json :: "exn + json"
  set_front :: "json \<Rightarrow> exn + json"
  get_fronters :: "exn + json"

text \<open>A handler returns its response and the calls it made to the collaborators, in order.\<close>

datatype call =
    Call_set_front json
  | Call_get_fronters

subsection \<open>switch_front and switch_single_front\<close>

text \<open>
  The \<open>try\<close> block of \<open>switch_front\<close>. The name \<open>broadcast_fronting_update\<close> is bound
  nowhere: \<open>main.py\<close> neither defines nor imports it, so the statement that calls it raises
  \<open>NameError\<close> when the name is looked up, and the \<open>return\<close> after it is never reached.
\<close>

definition switch_front_try :: "backend \<Rightarrow> (exn + json) \<times> call list" where
  "switch_front_try bk =
     (case request_json bk of
        Inl x \<Rightarrow> (Inl x, [])
      | Inr body \<Rightarrow>
     (case py_get body ''members'' (JList []) of
        Inl x \<Rightarrow> (Inl x, [])
      | Inr member_ids \<Rightarrow>
     if \<not> is_list member_ids
     then (Inl (HTTPException 400 ([CHR 0x27] @ ''members'' @ [CHR 0x27]
                                @ '' must be a list of member IDs'')), [])
     else
     (case set_front bk member_ids of
        Inl x \<Rightarrow> (Inl x, [Call_set_front member_ids])
      | Inr result \<Rightarrow>
     (case get_fronters bk of
        Inl x \<Rightarrow> (Inl x, [Call_set_front member_ids, Call_get_fronters])
      | Inr fronters_data \<Rightarrow>
          (Inl (NameError ''broadcast_fronting_update''),
           [Call_set_front member_ids, Call_get_fronters])))))"

text \<open>\<open>except Exception as e\<close>: every exception of the block, its own 400 too, becomes a 500.\<close>

definition switch_front :: "backend \<Rightarrow> (exn + json) \<times> call list" where
  "switch_front bk =
     (case switch_front_try bk of
        (Inl e, calls) \<Rightarrow> (Inl (HTTPException 500 (str_exn e)), calls)
      | (Inr response, calls) \<Rightarrow> (Inr response, calls))"

text \<open>
  The \<open>try\<close> block of \<open>switch_single_front\<close>; the test \<open>result or True\<close> is always true,
  and the call of \<open>broadcast_fronting_update\<close> raises \<open>NameError\<close> here as well.
\<close>

definition switch_single_front_try :: "backend \<Rightarrow> (exn + json) \<times> call list" where
  "switch_single_front_try bk =
     (case request_json bk of
        Inl x \<Rightarrow> (Inl x, [])
      | Inr body \<Rightarrow>
     (case py_get body ''member_id'' JNull of
        Inl x \<Rightarrow> (Inl x, [])
      | Inr member_id \<Rightarrow>
     if \<not> truthy member_id
     then (Inl (HTTPException 400 ''member_id is required''), [])
     else
     (case set_front bk (JList [member_id]) of
        Inl x \<Rightarrow> (Inl x, [Call_set_front (JList [member_id])])
      | Inr result \<Rightarrow>
     (case get_fronters bk of
        Inl x \<Rightarrow> (Inl x, [Call_set_front (JList [member_id]), Call_get_fronters])
      | Inr fronters_data \<Rightarrow>
          (Inl (NameError ''broadcast_fronting_update''),
           [Call_set_front (JList [member_id]), Call_get_fronters])))))"

text \<open>An \<open>HTTPException\<close> is raised again as it is, any other exception becomes a 500.\<close>

definition switch_single_front :: "backend \<Rightarrow> (exn + json) \<times> call list" where
  "switch_single_front bk =
     (case switch_single_front_try bk of
        (Inl (HTTPException c d), calls) \<Rightarrow> (Inl (HTTPException c d), calls)
      | (Inl e, calls) \<Rightarrow>
          (Inl (HTTPException 500 (''Failed to switch front: '' @ str_exn e)), calls)
      | (Inr response, calls) \<Rightarrow> (Inr response, calls))"

subsection \<open>Example request\<close>

text \<open>
  A request on which every collaborator returns: the body asks for the members \<open>m1\<close> and
  \<open>m2\<close>, \<open>set_front\<close> accepts them and \<open>get_fronters\<close> returns the new fronters.
\<close>

definition fronters0 :: json where
  "fronters0 = JObj [(''members'', JList [JObj [(''id'', JStr ''m1'')], JObj [(''id'', JStr ''m2'')]])]"

definition backend0 :: backend where
  "backend0 = \<lparr> request_json = Inr (JObj [(''members'', JList [JStr ''m1'', JStr ''m2'']),
                                          (''member_id'', JStr ''m1'')]),
                 set_front = (\<lambda>ids. Inr JNull),
                 get_fronters = Inr fronters0 \<rparr>"

section \<open>Properties of the user store\<close>

lemma force_owner_flags_length [simp]: "length (force_owner_flags e us) = length us"
  by (induction us) simp_all

lemma force_owner_flags_nth:
  "i < length us \<Longrightarrow> force_owner_flags e us ! i =
     (if is_owner_username e (username (us ! i)) then (us ! i)\<lparr>is_owner := True, is_admin := True\<rparr> else us ! i)"
proof (induction us arbitrary: i)
  case Nil then show ?case by simp
next
  case (Cons u us) then show ?case by (cases i) simp_all
qed

lemma force_owner_flags_forced:
  "u \<in> set (force_owner_flags e us) \<Longrightarrow> is_owner_username e (username u) \<Longrightarrow> is_owner u \<and> is_admin u"
  by (induction us) (auto split: if_splits)

lemma force_owner_flags_ids [simp]: "map user_id (force_owner_flags e us) = map user_id us"
  by (induction us) simp_all

lemma force_owner_flags_names [simp]: "map username (force_owner_flags e us) = map username us"
  by (induction us) simp_all

lemma save_users_forced: "owner_flags_forced e (snd (save_users e us))"
  by (auto simp: owner_flags_forced_def save_users_def Let_def list_all_iff dict_of_def
      dest: force_owner_flags_forced)

lemma by_username_loop_None:
  "get_user_by_username_loop e name us = None \<longleftrightarrow> (\<forall>u\<in>set us. lower e (username u) \<noteq> lower e name)"
  by (induction us) auto

lemma by_id_loop_Some:
  "get_user_by_id_loop uid us = Some u \<Longrightarrow> u \<in> set us \<and> user_id u = uid"
  by (induction us) (auto split: if_splits)

lemma by_id_loop_None:
  "get_user_by_id_loop uid us = None \<longleftrightarrow> (\<forall>u\<in>set us. user_id u \<noteq> uid)"
  by (induction us) auto

lemma update_user_loop_found_err:
  "get_user_by_id_loop uid rest = Some u \<Longrightarrow> update_user_body e uu r u = Inl x \<Longrightarrow>
   update_user_loop e uid uu r file users i rest = (Inl x, file)"
  by (induction rest arbitrary: i) (auto split: if_splits)

lemma update_user_loop_found_ok:
  "get_user_by_id_loop uid rest = Some u \<Longrightarrow> update_user_body e uu r u = Inr v \<Longrightarrow>
   \<exists>j. update_user_loop e uid uu r file users i rest =
     (Inr (Some (fst (save_users e (users[j := v])) ! j)), snd (save_users e (users[j := v])))
     \<and> i \<le> j \<and> j < i + length rest"
proof (induction rest arbitrary: i)
  case Nil then show ?case by simp
next
  case (Cons a rest)
  show ?case
  proof (cases "user_id a = uid")
    case True
    with Cons.prems show ?thesis by (auto simp: case_prod_beta Let_def intro!: exI[of _ i])
  next
    case False
    with Cons.prems have "get_user_by_id_loop uid rest = Some u" by simp
    from Cons.IH[OF this Cons.prems(2), of "Suc i"] False show ?thesis
      by (auto intro: Suc_leD)
  qed
qed

lemma update_user_loop_not_found:
  "get_user_by_id_loop uid rest = None \<Longrightarrow>
   update_user_loop e uid uu r file users i rest = (Inr None, file)"
  by (induction rest arbitrary: i) (auto split: if_splits)


lemma update_user_body_Inr:
  "update_user_body e uu r u = Inr v \<Longrightarrow>
     user_id v = user_id u \<and> username v = username u
     \<and> is_owner v = is_owner_username e (username u)
     \<and> (is_owner_username e (username u) \<longrightarrow> is_admin v)"
  by (auto simp: update_user_body_def Let_def split: if_splits)

lemma save_users_member:
  "u \<in> set (fst (save_users e us)) \<Longrightarrow> \<exists>ds. snd (save_users e us) = Some ds \<and> dict_of u \<in> set ds"
  by (auto simp: save_users_def Let_def)

lemma force_owner_flags_append:
  "force_owner_flags e (xs @ ys) = force_owner_flags e xs @ force_owner_flags e ys"
  by (induction xs) simp_all

lemma new_user_record_fixed:
  "force_owner_flags e [new_user_record e uc] = [new_user_record e uc]"
  by (simp add: new_user_record_def Let_def)

lemma create_user_ok:
  "get_user_by_username e (uc_username uc) file = None \<Longrightarrow>
   \<not> (is_owner_username e (uc_username uc) \<and> r \<noteq> None) \<Longrightarrow>
   create_user e uc r file =
     (Inr (new_user_record e uc), snd (save_users e (get_users e file @ [new_user_record e uc])))"
  by (simp add: create_user_def Let_def case_prod_beta save_users_def force_owner_flags_append
      new_user_record_fixed del: force_owner_flags.simps)

lemma create_user_Inr:
  assumes "create_user e uc r file = (Inr u, file')"
  shows "u = new_user_record e uc \<and> file' = snd (save_users e (get_users e file @ [u]))
         \<and> get_user_by_username e (uc_username uc) file = None
         \<and> \<not> (is_owner_username e (uc_username uc) \<and> r \<noteq> None)"
proof -
  have a: "get_user_by_username e (uc_username uc) file = None"
    using assms by (auto simp: create_user_def Let_def split: if_splits)
  have b: "\<not> (is_owner_username e (uc_username uc) \<and> r \<noteq> None)"
    using assms a by (auto simp: create_user_def Let_def split: if_splits)
  from create_user_ok[OF a b] assms a b show ?thesis by simp
qed

lemma update_user_Inr_Some:
  assumes "update_user e uid uu r file = (Inr (Some u), file')"
  shows "\<exists>u0 v j. get_user_by_id e uid file = Some u0 \<and> update_user_body e uu r u0 = Inr v
           \<and> j < length (get_users e file)
           \<and> u = fst (save_users e ((get_users e file)[j := v])) ! j
           \<and> file' = snd (save_users e ((get_users e file)[j := v]))"
proof (cases "get_user_by_id_loop uid (get_users e file)")
  case None
  from update_user_loop_not_found[OF this] assms show ?thesis
    by (simp add: update_user_def Let_def)
next
  case (Some u0)
  show ?thesis
  proof (cases "update_user_body e uu r u0")
    case (Inl x)
    from update_user_loop_found_err[OF Some Inl] assms show ?thesis
      by (simp add: update_user_def Let_def)
  next
    case (Inr v)
    have "\<exists>j. update_user_loop e uid uu r file (get_users e file) 0 (get_users e file) =
        (Inr (Some (fst (save_users e ((get_users e file)[j := v])) ! j)),
         snd (save_users e ((get_users e file)[j := v])))
        \<and> 0 \<le> j \<and> j < 0 + length (get_users e file)"
      by (rule update_user_loop_found_ok[OF Some Inr])
    then obtain j where j: "update_user_loop e uid uu r file (get_users e file) 0 (get_users e file) =
        (Inr (Some (fst (save_users e ((get_users e file)[j := v])) ! j)),
         snd (save_users e ((get_users e file)[j := v])))" "j < length (get_users e file)"
      by auto
    with assms Some Inr show ?thesis
      by (auto simp: update_user_def Let_def get_user_by_id_def)
  qed
qed

lemma update_user_Inr_Some_props:
  assumes "update_user e uid uu r file = (Inr (Some u), file')"
  shows "owner_flags_forced e file' \<and> (\<exists>ds. file' = Some ds \<and> dict_of u \<in> set ds)
         \<and> user_id u = uid \<and> is_owner u = is_owner_username e (username u)"
proof -
  from update_user_Inr_Some[OF assms] obtain u0 v j where
    h: "get_user_by_id e uid file = Some u0" "update_user_body e uu r u0 = Inr v"
       "j < length (get_users e file)"
       "u = fst (save_users e ((get_users e file)[j := v])) ! j"
       "file' = snd (save_users e ((get_users e file)[j := v]))" by blast
  let ?us = "(get_users e file)[j := v]"
  have len: "j < length ?us" using h(3) by simp
  have mem: "u \<in> set (fst (save_users e ?us))"
    using h(4) len by (simp add: save_users_def Let_def)
  have u_eq: "u = (if is_owner_username e (username v) then v\<lparr>is_owner := True, is_admin := True\<rparr> else v)"
    using h(4) len h(3) by (simp add: save_users_def Let_def force_owner_flags_nth)
  from update_user_body_Inr[OF h(2)] by_id_loop_Some[of uid "get_users e file" u0] h(1)
  have v: "user_id v = uid" "username v = username u0" "is_owner v = is_owner_username e (username u0)"
    by (auto simp: get_user_by_id_def)
  show ?thesis
    using save_users_forced[of e ?us] save_users_member[OF mem] h(5) u_eq v by auto
qed

lemma delete_user_True:
  "delete_user e uid r file = (Inr True, file') \<Longrightarrow>
     file' = snd (save_users e (filter (\<lambda>user. user_id user \<noteq> uid) (get_users e file)))"
  by (auto simp: delete_user_def Let_def case_prod_beta split: option.splits if_splits)

lemma get_users_forced:
  "u \<in> set (get_users e file) \<Longrightarrow> is_owner_username e (username u) \<Longrightarrow> is_owner u \<and> is_admin u"
  by (auto simp: get_users_def load_user_def Let_def split: option.splits)

text \<open>
  Claim C2. Whatever flags the input carries, every write leaves each entry whose username
  equals the owner's username, compared through \<open>lower\<close>, with \<open>is_owner\<close> and
  \<open>is_admin\<close> set: this holds for the file written by \<open>save_users\<close> on any list,
  and for the file left by every successful \<open>create_user\<close>, \<open>update_user\<close> and
  \<open>delete_user\<close>; the record created or updated is in that file; and every record
  \<open>get_users\<close> reads back with that username has both flags set.
\<close>

theorem owner_flags_persisted:
  "owner_flags_forced e (snd (save_users e users))
   \<and> (create_user e uc r file = (Inr u, file') \<longrightarrow>
        owner_flags_forced e file' \<and> (\<exists>ds. file' = Some ds \<and> dict_of u \<in> set ds))
   \<and> (update_user e uid uu r file = (Inr (Some u), file') \<longrightarrow>
        owner_flags_forced e file' \<and> (\<exists>ds. file' = Some ds \<and> dict_of u \<in> set ds))
   \<and> (delete_user e uid r file = (Inr True, file') \<longrightarrow> owner_flags_forced e file')
   \<and> (\<forall>v\<in>set (get_users e file). is_owner_username e (username v) \<longrightarrow> is_owner v \<and> is_admin v)"
proof (intro conjI impI ballI)
  show "owner_flags_forced e (snd (save_users e users))" by (rule save_users_forced)
next
  assume a: "create_user e uc r file = (Inr u, file')"
  from create_user_Inr[OF a] have f: "file' = snd (save_users e (get_users e file @ [u]))"
    and u: "u = new_user_record e uc" by simp_all
  show "owner_flags_forced e file'" unfolding f by (rule save_users_forced)
  have "u \<in> set (fst (save_users e (get_users e file @ [u])))"
    using u by (simp add: save_users_def Let_def force_owner_flags_append new_user_record_fixed
        del: force_owner_flags.simps)
  from save_users_member[OF this] f show "\<exists>ds. file' = Some ds \<and> dict_of u \<in> set ds" by simp
next
  assume a: "update_user e uid uu r file = (Inr (Some u), file')"
  from update_user_Inr_Some_props[OF a]
  show "owner_flags_forced e file'" "\<exists>ds. file' = Some ds \<and> dict_of u \<in> set ds" by simp_all
next
  assume "delete_user e uid r file = (Inr True, file')"
  from delete_user_True[OF this] show "owner_flags_forced e file'"
    by (simp add: save_users_forced)
next
  fix v assume "v \<in> set (get_users e file)" "is_owner_username e (username v)"
  then show "is_owner v" "is_admin v" using get_users_forced by blast+
qed


theorem owner_flags_persisted_witness:
  "owner_flags_forced env0 (snd (save_users env0 [corrupt_owner]))
   \<and> create_user env0 create_owner None (Some [alice_rec])
       = (Inr (new_user_record env0 create_owner),
          Some [alice_rec, dict_of (new_user_record env0 create_owner)])
   \<and> owner_flags_forced env0 (Some [alice_rec, dict_of (new_user_record env0 create_owner)])
   \<and> update_user env0 ''id-owner'' rename_patch None file0
       = (Inr (Some (load_user env0 owner_rec\<lparr>display_name := Some ''Boss''\<rparr>)),
          Some [dict_of (load_user env0 owner_rec\<lparr>display_name := Some ''Boss''\<rparr>),
                alice_rec, bob_rec])
   \<and> owner_flags_forced env0
         (Some [dict_of (load_user env0 owner_rec\<lparr>display_name := Some ''Boss''\<rparr>),
                alice_rec, bob_rec])
   \<and> delete_user env0 ''id-bob'' None file0
       = (Inr True, Some [dict_of (load_user env0 owner_rec), alice_rec])
   \<and> owner_flags_forced env0 (Some [dict_of (load_user env0 owner_rec), alice_rec])
   \<and> load_user env0 owner_rec \<in> set (get_users env0 file0)
   \<and> is_owner_username env0 (username (load_user env0 owner_rec))
   \<and> is_owner (load_user env0 owner_rec) \<and> is_admin (load_user env0 owner_rec)"
proof -
  let ?u1 = "new_user_record env0 create_owner"
  let ?f1 = "Some [alice_rec, dict_of ?u1]"
  let ?u2 = "load_user env0 owner_rec\<lparr>display_name := Some ''Boss''\<rparr>"
  let ?f2 = "Some [dict_of ?u2, alice_rec, bob_rec]"
  let ?f3 = "Some [dict_of (load_user env0 owner_rec), alice_rec]"
  have c: "create_user env0 create_owner None (Some [alice_rec]) = (Inr ?u1, ?f1)"
    by code_simp
  have u: "update_user env0 ''id-owner'' rename_patch None file0 = (Inr (Some ?u2), ?f2)"
    by code_simp
  have d: "delete_user env0 ''id-bob'' None file0 = (Inr True, ?f3)"
    by code_simp
  have m: "load_user env0 owner_rec \<in> set (get_users env0 file0)"
    by (simp add: get_users_def file0_def)
  have n: "is_owner_username env0 (username (load_user env0 owner_rec))"
    by code_simp
  note t = owner_flags_persisted[where e = env0 and users = "[corrupt_owner]"]
  have 1: "owner_flags_forced env0 (snd (save_users env0 [corrupt_owner]))"
    using t by blast
  have 2: "owner_flags_forced env0 ?f1"
    using t[where uc = create_owner and r = None and u = ?u1 and file' = ?f1] c by blast
  have 3: "owner_flags_forced env0 ?f2"
    using t[where uid = "''id-owner''" and uu = rename_patch and r = None and u = ?u2
        and file' = ?f2] u by blast
  have 4: "owner_flags_forced env0 ?f3"
    using t[where uid = "''id-bob''" and r = None and file' = ?f3] d by blast
  have 5: "is_owner (load_user env0 owner_rec) \<and> is_admin (load_user env0 owner_rec)"
    using t m n by blast
  from 1 2 3 4 5 c u d m n show ?thesis by blast
qed

text \<open>
  Claim C4. When the record \<open>update_user\<close> locates by the id (the first one with it, as
  \<open>get_user_by_id\<close> finds it) has \<open>is_owner\<close> set as \<open>get_users\<close> derives it, and
  the patch has \<open>is_admin = False\<close>, the update raises \<open>PermissionError\<close> for every
  requesting user, also for none, and the file is what it was.
\<close>

theorem update_owner_revoke_admin_denied:
  assumes "get_user_by_id e uid file = Some u" and "is_owner u"
    and "uu_is_admin user_update = Some False"
  shows "update_user e uid user_update requesting_user file =
           (Inl (PermissionError ''Cannot remove admin privileges from owner''), file)"
proof -
  have "update_user_body e user_update requesting_user u =
          Inl (PermissionError ''Cannot remove admin privileges from owner'')"
    using assms(2,3) by (simp add: update_user_body_def)
  with assms(1) show ?thesis
    by (simp add: update_user_def get_user_by_id_def Let_def update_user_loop_found_err)
qed

theorem update_owner_revoke_admin_denied_witness:
  "get_user_by_id env0 ''id-owner'' file0 = Some (load_user env0 owner_rec)
   \<and> is_owner (load_user env0 owner_rec)
   \<and> uu_is_admin revoke_patch = Some False
   \<and> update_user env0 ''id-owner'' revoke_patch (Some (load_user env0 owner_rec)) file0 =
       (Inl (PermissionError ''Cannot remove admin privileges from owner''), file0)
   \<and> update_user env0 ''id-owner'' revoke_patch None file0 =
       (Inl (PermissionError ''Cannot remove admin privileges from owner''), file0)"
proof -
  have a: "get_user_by_id env0 ''id-owner'' file0 = Some (load_user env0 owner_rec)" by code_simp
  have b: "is_owner (load_user env0 owner_rec)" by code_simp
  have c: "uu_is_admin revoke_patch = Some False" by code_simp
  from update_owner_revoke_admin_denied[OF a b c] a b c show ?thesis by blast
qed

text \<open>
  Claim C5. \<open>delete_user\<close> called with the id of a record whose \<open>is_owner\<close> is set
  raises \<open>PermissionError\<close> for every requesting user and also for none, and the file is
  what it was.
\<close>

theorem delete_owner_denied:
  assumes "get_user_by_id e uid file = Some u" and "is_owner u"
  shows "delete_user e uid requesting_user file =
           (Inl (PermissionError ''Cannot delete the owner account''), file)"
  using assms by (simp add: delete_user_def get_user_by_id_def Let_def)

theorem delete_owner_denied_witness:
  "get_user_by_id env0 ''id-owner'' file0 = Some (load_user env0 owner_rec)
   \<and> is_owner (load_user env0 owner_rec)
   \<and> delete_user env0 ''id-owner'' None file0 =
       (Inl (PermissionError ''Cannot delete the owner account''), file0)
   \<and> delete_user env0 ''id-owner'' (Some (load_user env0 owner_rec)) file0 =
       (Inl (PermissionError ''Cannot delete the owner account''), file0)
   \<and> delete_user env0 ''id-owner'' (Some (load_user env0 alice_rec)) file0 =
       (Inl (PermissionError ''Cannot delete the owner account''), file0)"
proof -
  have a: "get_user_by_id env0 ''id-owner'' file0 = Some (load_user env0 owner_rec)" by code_simp
  have b: "is_owner (load_user env0 owner_rec)" by code_simp
  from delete_owner_denied[OF a b] a b show ?thesis by blast
qed

text \<open>
  Claim C7. When the store holds a record whose username equals the requested one under
  \<open>lower\<close>, \<open>create_user\<close> raises \<open>ValueError\<close> (the conflict error of the code)
  for every requesting user, and the file is what it was: no record is added.
\<close>

theorem create_duplicate_username_conflict:
  assumes "u \<in> set (get_users e file)"
    and "lower e (username u) = lower e (uc_username user_create)"
  shows "create_user e user_create requesting_user file =
           (Inl (ValueError (''Username '' @ [CHR 0x27] @ uc_username user_create @ [CHR 0x27]
                              @ '' already exists'')), file)"
proof -
  have "get_user_by_username e (uc_username user_create) file \<noteq> None"
    using assms by (auto simp: get_user_by_username_def by_username_loop_None)
  then show ?thesis by (simp add: create_user_def Let_def)
qed

theorem create_duplicate_username_conflict_witness:
  "load_user env0 alice_rec \<in> set (get_users env0 file0)
   \<and> lower env0 (username (load_user env0 alice_rec)) = lower env0 (uc_username create_alice)
   \<and> create_user env0 create_alice None file0 =
       (Inl (ValueError (''Username '' @ [CHR 0x27] @ ''ALICE'' @ [CHR 0x27] @ '' already exists'')), file0)"
proof -
  have a: "load_user env0 alice_rec \<in> set (get_users env0 file0)"
    by (simp add: get_users_def file0_def)
  have b: "lower env0 (username (load_user env0 alice_rec)) = lower env0 (uc_username create_alice)"
    by code_simp
  have c: "uc_username create_alice = ''ALICE''" by code_simp
  from create_duplicate_username_conflict[OF a b, of None] a b c show ?thesis by simp
qed


lemma get_users_save_users_ids:
  "map user_id (get_users e (snd (save_users e us))) = map user_id us"
proof -
  have "map user_id (get_users e (snd (save_users e us))) = map user_id (force_owner_flags e us)"
    by (simp add: get_users_def save_users_def Let_def load_user_def dict_of_def comp_def)
  then show ?thesis by simp
qed

lemma delete_user_no_actor:
  assumes "get_user_by_id e uid file = Some u" and "\<not> is_owner u"
  shows "delete_user e uid None file =
           (Inr True, snd (save_users e (filter (\<lambda>user. user_id user \<noteq> uid) (get_users e file))))"
proof -
  from assms(1) have "u \<in> set (get_users e file)" "user_id u = uid"
    using by_id_loop_Some[of uid "get_users e file" u] by (simp_all add: get_user_by_id_def)
  then have "length (filter (\<lambda>user. user_id user \<noteq> uid) (get_users e file)) < length (get_users e file)"
    by (intro length_filter_less[of u]) auto
  with assms show ?thesis
    by (simp add: delete_user_def get_user_by_id_def Let_def case_prod_beta)
qed

lemma add_user_owner_name:
  assumes "is_admin current_user" and "is_owner_username e (uc_username user_create)"
    and "get_user_by_username e (uc_username user_create) file = None"
  shows "add_user e user_create current_user file =
           (Inr (user_response (new_user_record e user_create)),
            snd (create_user e user_create None file))
         \<and> is_PermissionError (fst (create_user e user_create (Some current_user) file))"
proof -
  have 1: "create_user e user_create None file =
     (Inr (new_user_record e user_create),
      snd (save_users e (get_users e file @ [new_user_record e user_create])))"
    using assms by (intro create_user_ok) simp_all
  have 2: "create_user e user_create (Some current_user) file =
     (Inl (PermissionError (''Cannot create user with owner username. ''
                                 @ ''Owner account must be created via initial setup.'')), file)"
    using assms by (simp add: create_user_def)
  show ?thesis using assms unfolding add_user_def 1 2 by (simp add: is_PermissionError_def)
qed

text \<open>
  Claim C10. With no requesting user the actor rules are not evaluated: when the record
  located by the id has \<open>is_admin\<close> set and \<open>is_owner\<close> clear (the flags as
  \<open>get_users\<close> derives them), \<open>delete_user\<close> with \<open>None\<close> returns \<open>True\<close>, writes the
  list without the records of that id, and the id is gone from the store, where the same call
  with any requesting user who is not the owner raises \<open>PermissionError\<close>. The endpoints
  do not pass the authenticated user: \<open>remove_user\<close> succeeds for every admin other than
  the target itself, and \<open>add_user\<close> by an admin creates a record with the owner's
  username when none has it, where \<open>create_user\<close> given that user raises
  \<open>PermissionError\<close>.
\<close>

theorem delete_without_actor_skips_actor_rules:
  assumes "get_user_by_id e uid file = Some u" and "is_admin u" and "\<not> is_owner u"
  shows "delete_user e uid None file =
           (Inr True, snd (save_users e (filter (\<lambda>user. user_id user \<noteq> uid) (get_users e file))))
         \<and> uid \<notin> set (map user_id (get_users e (snd (delete_user e uid None file))))
         \<and> (\<forall>actor. \<not> is_owner actor \<longrightarrow>
               delete_user e uid (Some actor) file =
                 (Inl (PermissionError ''Only the owner can delete admin accounts''), file))
         \<and> (\<forall>current_user. is_admin current_user \<and> user_id current_user \<noteq> uid \<longrightarrow>
               remove_user e uid current_user file =
                 (Inr ''User deleted successfully'', snd (delete_user e uid None file)))
         \<and> (\<forall>current_user user_create.
               is_admin current_user \<and> is_owner_username e (uc_username user_create)
               \<and> get_user_by_username e (uc_username user_create) file = None \<longrightarrow>
               add_user e user_create current_user file =
                 (Inr (user_response (new_user_record e user_create)),
                  snd (create_user e user_create None file))
               \<and> is_PermissionError (fst (create_user e user_create (Some current_user) file)))"
proof -
  have d: "delete_user e uid None file =
           (Inr True, snd (save_users e (filter (\<lambda>user. user_id user \<noteq> uid) (get_users e file))))"
    by (rule delete_user_no_actor[OF assms(1,3)])
  have p1: "uid \<notin> set (map user_id (get_users e (snd (delete_user e uid None file))))"
    unfolding d snd_conv get_users_save_users_ids by auto
  have p2: "delete_user e uid (Some actor) file =
                 (Inl (PermissionError ''Only the owner can delete admin accounts''), file)"
    if "\<not> is_owner actor" for actor
    using assms that by (simp add: delete_user_def get_user_by_id_def Let_def)
  have p3: "remove_user e uid current_user file =
                 (Inr ''User deleted successfully'', snd (delete_user e uid None file))"
    if "is_admin current_user \<and> user_id current_user \<noteq> uid" for current_user
    using that d by (auto simp: remove_user_def)
  have p4: "add_user e user_create current_user file =
                 (Inr (user_response (new_user_record e user_create)),
                  snd (create_user e user_create None file))
        \<and> is_PermissionError (fst (create_user e user_create (Some current_user) file))"
    if "is_admin current_user \<and> is_owner_username e (uc_username user_create)
               \<and> get_user_by_username e (uc_username user_create) file = None"
    for current_user user_create
    using that by (simp add: add_user_owner_name)
  from d p1 p2 p3 p4 show ?thesis by blast
qed

theorem delete_without_actor_skips_actor_rules_witness:
  "get_user_by_id env0 ''id-bob'' (Some [alice_rec, bob_rec]) = Some (load_user env0 bob_rec)
   \<and> is_admin (load_user env0 bob_rec) \<and> \<not> is_owner (load_user env0 bob_rec)
   \<and> delete_user env0 ''id-bob'' None (Some [alice_rec, bob_rec]) = (Inr True, Some [alice_rec])
   \<and> \<not> is_owner (load_user env0 alice_rec)
   \<and> delete_user env0 ''id-bob'' (Some (load_user env0 alice_rec)) (Some [alice_rec, bob_rec]) =
       (Inl (PermissionError ''Only the owner can delete admin accounts''), Some [alice_rec, bob_rec])
   \<and> is_admin (load_user env0 alice_rec) \<and> user_id (load_user env0 alice_rec) \<noteq> ''id-bob''
   \<and> remove_user env0 ''id-bob'' (load_user env0 alice_rec) (Some [alice_rec, bob_rec]) =
       (Inr ''User deleted successfully'', Some [alice_rec])
   \<and> is_owner_username env0 (uc_username create_owner)
   \<and> get_user_by_username env0 (uc_username create_owner) (Some [alice_rec, bob_rec]) = None
   \<and> fst (add_user env0 create_owner (load_user env0 alice_rec) (Some [alice_rec, bob_rec])) =
       Inr (user_response (new_user_record env0 create_owner))
   \<and> is_PermissionError
        (fst (create_user env0 create_owner (Some (load_user env0 alice_rec)) (Some [alice_rec, bob_rec])))"
proof -
  let ?f = "Some [alice_rec, bob_rec]"
  let ?alice = "load_user env0 alice_rec"
  have a: "get_user_by_id env0 ''id-bob'' ?f = Some (load_user env0 bob_rec)" by code_simp
  have b: "is_admin (load_user env0 bob_rec)" by code_simp
  have c: "\<not> is_owner (load_user env0 bob_rec)" by code_simp
  have d: "\<not> is_owner ?alice" by code_simp
  have e: "is_admin ?alice \<and> user_id ?alice \<noteq> ''id-bob''" by code_simp
  have f: "is_owner_username env0 (uc_username create_owner)" by code_simp
  have g: "get_user_by_username env0 (uc_username create_owner) ?f = None" by code_simp
  have s: "snd (save_users env0 (filter (\<lambda>user. user_id user \<noteq> ''id-bob'') (get_users env0 ?f)))
             = Some [alice_rec]" by code_simp
  note t = delete_without_actor_skips_actor_rules[OF a b c]
  have 1: "delete_user env0 ''id-bob'' None ?f = (Inr True, Some [alice_rec])"
    using t s by simp
  have 2: "delete_user env0 ''id-bob'' (Some ?alice) ?f =
       (Inl (PermissionError ''Only the owner can delete admin accounts''), ?f)"
    using t d by blast
  have 3: "remove_user env0 ''id-bob'' ?alice ?f = (Inr ''User deleted successfully'', Some [alice_rec])"
    using t e 1 by simp
  have 4: "fst (add_user env0 create_owner ?alice ?f) =
             Inr (user_response (new_user_record env0 create_owner))
           \<and> is_PermissionError (fst (create_user env0 create_owner (Some ?alice) ?f))"
    using t e f g by simp
  from a b c d e f g 1 2 3 4 show ?thesis by blast
qed


text \<open>
  Claim C3, as stated, fails: \<open>save_users\<close> sets the flags on the owner's username and
  clears nothing. A record read with \<open>is_owner\<close> set on another username is written back
  with the flag set, by \<open>save_users\<close> itself and through \<open>create_user\<close>.
\<close>

theorem save_keeps_foreign_owner_flag_counterexample:
  "get_users env0 (Some [owner_rec, mallory_rec]) = [load_user env0 owner_rec, load_user env0 mallory_rec]
   \<and> is_owner (load_user env0 mallory_rec)
   \<and> \<not> is_owner_username env0 (username (load_user env0 mallory_rec))
   \<and> snd (save_users env0 (get_users env0 (Some [owner_rec, mallory_rec])))
        = Some [dict_of (load_user env0 owner_rec), mallory_rec]
   \<and> \<not> only_owner_is_owner env0 (snd (save_users env0 (get_users env0 (Some [owner_rec, mallory_rec]))))
   \<and> fst (create_user env0 create_carol None (Some [owner_rec, mallory_rec]))
        = Inr (new_user_record env0 create_carol)
   \<and> \<not> only_owner_is_owner env0 (snd (create_user env0 create_carol None (Some [owner_rec, mallory_rec])))"
  by code_simp

lemma get_users_only_owner:
  "only_owner_is_owner e file \<Longrightarrow> u \<in> set (get_users e file) \<Longrightarrow> is_owner u \<Longrightarrow>
     is_owner_username e (username u)"
  by (auto simp: only_owner_is_owner_def get_users_def load_user_def Let_def list_all_iff
      split: option.splits if_splits)

lemma force_owner_flags_only_owner:
  "\<forall>u\<in>set us. is_owner u \<longrightarrow> is_owner_username e (username u) \<Longrightarrow>
   v \<in> set (force_owner_flags e us) \<Longrightarrow> is_owner v \<Longrightarrow> is_owner_username e (username v)"
  by (induction us) (auto split: if_splits)

lemma save_users_only_owner:
  assumes "\<forall>u\<in>set us. is_owner u \<longrightarrow> is_owner_username e (username u)"
  shows "only_owner_is_owner e (snd (save_users e us))"
  using force_owner_flags_only_owner[OF assms]
  by (auto simp: only_owner_is_owner_def save_users_def Let_def list_all_iff dict_of_def)

lemma create_user_cases:
  "snd (create_user e uc r file) = file
   \<or> create_user e uc r file =
       (Inr (new_user_record e uc), snd (save_users e (get_users e file @ [new_user_record e uc])))"
proof (cases "get_user_by_username e (uc_username uc) file = None
              \<and> \<not> (is_owner_username e (uc_username uc) \<and> r \<noteq> None)")
  case True
  then show ?thesis using create_user_ok[of e uc "file" r] by simp
next
  case False
  then show ?thesis by (auto simp: create_user_def)
qed

lemma update_user_cases:
  "snd (update_user e uid uu r file) = file
   \<or> (\<exists>u file'. update_user e uid uu r file = (Inr (Some u), file'))"
proof (cases "get_user_by_id_loop uid (get_users e file)")
  case None
  from update_user_loop_not_found[OF this] show ?thesis
    by (simp add: update_user_def Let_def)
next
  case (Some u0)
  show ?thesis
  proof (cases "update_user_body e uu r u0")
    case (Inl x)
    from update_user_loop_found_err[OF Some Inl] show ?thesis
      by (simp add: update_user_def Let_def)
  next
    case (Inr v)
    have "\<exists>j. update_user_loop e uid uu r file (get_users e file) 0 (get_users e file) =
        (Inr (Some (fst (save_users e ((get_users e file)[j := v])) ! j)),
         snd (save_users e ((get_users e file)[j := v])))
        \<and> 0 \<le> j \<and> j < 0 + length (get_users e file)"
      by (rule update_user_loop_found_ok[OF Some Inr])
    then show ?thesis by (auto simp: update_user_def Let_def)
  qed
qed

lemma delete_user_cases:
  "snd (delete_user e uid r file) = file
   \<or> delete_user e uid r file =
       (Inr True, snd (save_users e (filter (\<lambda>user. user_id user \<noteq> uid) (get_users e file))))"
  by (auto simp: delete_user_def Let_def case_prod_beta split: option.splits)

lemma create_user_keeps_only_owner:
  assumes "only_owner_is_owner e file"
  shows "only_owner_is_owner e (snd (create_user e uc r file))"
proof -
  have n: "is_owner (new_user_record e uc) \<longrightarrow> is_owner_username e (username (new_user_record e uc))"
    by (simp add: new_user_record_def Let_def)
  have "\<forall>u\<in>set (get_users e file @ [new_user_record e uc]).
          is_owner u \<longrightarrow> is_owner_username e (username u)"
    using get_users_only_owner[OF assms] n by auto
  from save_users_only_owner[OF this] create_user_cases[of e uc r "file"] assms
  show ?thesis by auto
qed

lemma update_user_keeps_only_owner:
  assumes "only_owner_is_owner e file"
  shows "only_owner_is_owner e (snd (update_user e uid uu r file))"
proof -
  from update_user_cases[of e uid uu r "file"] show ?thesis
  proof
    assume "snd (update_user e uid uu r file) = file"
    with assms show ?thesis by simp
  next
    assume "\<exists>u file'. update_user e uid uu r file = (Inr (Some u), file')"
    then obtain u file' where h: "update_user e uid uu r file = (Inr (Some u), file')" by blast
    from update_user_Inr_Some[OF h] obtain u0 v j where
      k: "update_user_body e uu r u0 = Inr v"
         "file' = snd (save_users e ((get_users e file)[j := v]))" by blast
    from update_user_body_Inr[OF k(1)]
    have v: "is_owner v \<longrightarrow> is_owner_username e (username v)" by simp
    have "\<forall>w\<in>set ((get_users e file)[j := v]). is_owner w \<longrightarrow> is_owner_username e (username w)"
    proof
      fix w assume "w \<in> set ((get_users e file)[j := v])"
      then have "w = v \<or> w \<in> set (get_users e file)"
        using set_update_subset_insert[of "get_users e file" j v] by auto
      then show "is_owner w \<longrightarrow> is_owner_username e (username w)"
        using v get_users_only_owner[OF assms] by blast
    qed
    from save_users_only_owner[OF this] h k(2) show ?thesis by simp
  qed
qed

lemma delete_user_keeps_only_owner:
  assumes "only_owner_is_owner e file"
  shows "only_owner_is_owner e (snd (delete_user e uid r file))"
proof -
  have "\<forall>u\<in>set (filter (\<lambda>user. user_id user \<noteq> uid) (get_users e file)).
          is_owner u \<longrightarrow> is_owner_username e (username u)"
    using get_users_only_owner[OF assms] by auto
  from save_users_only_owner[OF this] delete_user_cases[of e uid r "file"] assms
  show ?thesis by auto
qed

text \<open>
  Claim C3, amended. Every write goes over all records of the list before writing: a record
  with the owner's username is written with \<open>is_owner\<close> and \<open>is_admin\<close> set, and every
  other record is written as it is. No operation grants \<open>is_owner\<close> to another username:
  when only entries with the owner's username have \<open>is_owner\<close> set, the same holds after
  \<open>save_users\<close> and after every \<open>create_user\<close>, \<open>update_user\<close> and \<open>delete_user\<close>, and a
  record created has \<open>is_owner\<close> set exactly when its username is the owner's. A record
  that already has \<open>is_owner\<close> set on another username is not cleared by a save: only the
  record that a successful \<open>update_user\<close> targets is written with \<open>is_owner\<close> recomputed
  from its username.
\<close>

theorem writes_grant_owner_only_by_username:
  "length (fst (save_users e users)) = length users
   \<and> snd (save_users e users) = Some (map dict_of (fst (save_users e users)))
   \<and> (\<forall>i<length users.
         fst (save_users e users) ! i =
           (if is_owner_username e (username (users ! i))
            then (users ! i)\<lparr>is_owner := True, is_admin := True\<rparr>
            else users ! i))
   \<and> ((\<forall>v\<in>set users. is_owner v \<longrightarrow> is_owner_username e (username v)) \<longrightarrow>
         only_owner_is_owner e (snd (save_users e users)))
   \<and> (only_owner_is_owner e file \<longrightarrow>
         only_owner_is_owner e (snd (create_user e user_create requesting_user file))
         \<and> only_owner_is_owner e (snd (update_user e uid user_update requesting_user file))
         \<and> only_owner_is_owner e (snd (delete_user e uid requesting_user file)))
   \<and> (create_user e user_create requesting_user file = (Inr u, file') \<longrightarrow>
         is_owner u = is_owner_username e (username u))
   \<and> (update_user e uid user_update requesting_user file = (Inr (Some u), file') \<longrightarrow>
         user_id u = uid \<and> is_owner u = is_owner_username e (username u)
         \<and> (\<exists>ds. file' = Some ds \<and> dict_of u \<in> set ds))"
proof -
  have 1: "length (fst (save_users e users)) = length users"
    by (simp add: save_users_def Let_def)
  have 2: "snd (save_users e users) = Some (map dict_of (fst (save_users e users)))"
    by (simp add: save_users_def Let_def)
  have 3: "\<forall>i<length users.
         fst (save_users e users) ! i =
           (if is_owner_username e (username (users ! i))
            then (users ! i)\<lparr>is_owner := True, is_admin := True\<rparr>
            else users ! i)"
    by (simp add: save_users_def Let_def force_owner_flags_nth)
  have 4: "(\<forall>v\<in>set users. is_owner v \<longrightarrow> is_owner_username e (username v)) \<longrightarrow>
         only_owner_is_owner e (snd (save_users e users))"
    using save_users_only_owner[of users e] by blast
  have 5: "only_owner_is_owner e file \<longrightarrow>
         only_owner_is_owner e (snd (create_user e user_create requesting_user file))
         \<and> only_owner_is_owner e (snd (update_user e uid user_update requesting_user file))
         \<and> only_owner_is_owner e (snd (delete_user e uid requesting_user file))"
    using create_user_keeps_only_owner update_user_keeps_only_owner delete_user_keeps_only_owner
    by blast
  have 6: "create_user e user_create requesting_user file = (Inr u, file') \<longrightarrow>
         is_owner u = is_owner_username e (username u)"
  proof
    assume "create_user e user_create requesting_user file = (Inr u, file')"
    from create_user_Inr[OF this] have "u = new_user_record e user_create" by simp
    then show "is_owner u = is_owner_username e (username u)"
      by (simp add: new_user_record_def Let_def)
  qed
  have 7: "update_user e uid user_update requesting_user file = (Inr (Some u), file') \<longrightarrow>
         user_id u = uid \<and> is_owner u = is_owner_username e (username u)
         \<and> (\<exists>ds. file' = Some ds \<and> dict_of u \<in> set ds)"
    using update_user_Inr_Some_props[of e uid user_update requesting_user "file" u file'] by blast
  from 1 2 3 4 5 6 7 show ?thesis by blast
qed

theorem writes_grant_owner_only_by_username_witness:
  "fst (save_users env0 [corrupt_owner, load_user env0 mallory_rec]) ! 0
        = corrupt_owner\<lparr>is_owner := True, is_admin := True\<rparr>
   \<and> fst (save_users env0 [corrupt_owner, load_user env0 mallory_rec]) ! 1 = load_user env0 mallory_rec
   \<and> only_owner_is_owner env0 (snd (save_users env0 [corrupt_owner, load_user env0 alice_rec]))
   \<and> only_owner_is_owner env0 file0
   \<and> create_user env0 create_carol None file0
        = (Inr (new_user_record env0 create_carol),
           Some [dict_of (load_user env0 owner_rec), alice_rec, bob_rec,
                 dict_of (new_user_record env0 create_carol)])
   \<and> \<not> is_owner (new_user_record env0 create_carol)
   \<and> only_owner_is_owner env0 (snd (create_user env0 create_carol None file0))
   \<and> only_owner_is_owner env0 (snd (update_user env0 ''id-alice'' rename_patch None file0))
   \<and> only_owner_is_owner env0 (snd (delete_user env0 ''id-bob'' None file0))
   \<and> update_user env0 ''id-mallory'' rename_patch None (Some [owner_rec, mallory_rec])
        = (Inr (Some (load_user env0 mallory_rec\<lparr>display_name := Some ''Boss'', is_owner := False\<rparr>)),
           Some [dict_of (load_user env0 owner_rec),
                 dict_of (load_user env0 mallory_rec\<lparr>display_name := Some ''Boss'', is_owner := False\<rparr>)])
   \<and> is_owner (load_user env0 mallory_rec\<lparr>display_name := Some ''Boss'', is_owner := False\<rparr>)
        = is_owner_username env0 ''mallory''"
proof -
  let ?us = "[corrupt_owner, load_user env0 mallory_rec]"
  let ?vs = "[corrupt_owner, load_user env0 alice_rec]"
  let ?u = "load_user env0 mallory_rec\<lparr>display_name := Some ''Boss'', is_owner := False\<rparr>"
  let ?f = "Some [dict_of (load_user env0 owner_rec), dict_of ?u]"
  let ?carol = "new_user_record env0 create_carol"
  let ?fc = "Some [dict_of (load_user env0 owner_rec), alice_rec, bob_rec, dict_of ?carol]"
  have a: "is_owner_username env0 (username (?us ! 0))" by code_simp
  have b: "\<not> is_owner_username env0 (username (?us ! 1))" by code_simp
  have c: "update_user env0 ''id-mallory'' rename_patch None (Some [owner_rec, mallory_rec])
        = (Inr (Some ?u), ?f)" by code_simp
  have d: "username ?u = ''mallory''" by code_simp
  have p: "\<forall>v\<in>set ?vs. is_owner v \<longrightarrow> is_owner_username env0 (username v)" by code_simp
  have q: "only_owner_is_owner env0 file0" by code_simp
  have cc: "create_user env0 create_carol None file0 = (Inr ?carol, ?fc)" by code_simp
  have nc: "\<not> is_owner_username env0 (username ?carol)" by code_simp
  note t = writes_grant_owner_only_by_username[where e = env0]
  have 0: "fst (save_users env0 ?us) ! 0 = corrupt_owner\<lparr>is_owner := True, is_admin := True\<rparr>"
    using t[where users = ?us] a by simp
  have 1: "fst (save_users env0 ?us) ! 1 = load_user env0 mallory_rec"
    using t[where users = ?us] b by simp
  have 2: "is_owner ?u = is_owner_username env0 ''mallory''"
    using t[where uid = "''id-mallory''" and user_update = rename_patch and requesting_user = None
        and u = ?u and file' = ?f] c d by metis
  have 3: "only_owner_is_owner env0 (snd (save_users env0 ?vs))"
    using t[where users = ?vs] p by blast
  have 4: "only_owner_is_owner env0 (snd (create_user env0 create_carol None file0))"
    using t[of _ file0 create_carol None] q by blast
  have 5: "only_owner_is_owner env0 (snd (update_user env0 ''id-alice'' rename_patch None file0))"
    using t[of _ file0 _ None "''id-alice''" rename_patch] q by blast
  have 6: "only_owner_is_owner env0 (snd (delete_user env0 ''id-bob'' None file0))"
    using t[of _ file0 _ None "''id-bob''"] q by blast
  have 7: "\<not> is_owner ?carol"
    using t[where user_create = create_carol and requesting_user = None and u = ?carol
        and file' = ?fc] cc nc by metis
  from 0 1 2 3 4 5 6 7 c cc q show ?thesis by blast
qed


text \<open>
  Claim C6. \<open>create_user\<close> given a requesting user refuses the owner's username with
  \<open>PermissionError\<close> and writes nothing, but the endpoint \<open>add_user\<close> calls it without the
  authenticated user. For an admin who is not the owner, asking for the owner's username on a
  store where no record has it, \<open>add_user\<close> answers with the new record and the file holds
  it with \<open>is_owner\<close> and \<open>is_admin\<close> set.
\<close>

theorem add_user_creates_owner_record:
  "is_admin (load_user env0 alice_rec) \<and> \<not> is_owner (load_user env0 alice_rec)
   \<and> is_owner_username env0 (uc_username create_owner)
   \<and> get_user_by_username env0 (uc_username create_owner) (Some [alice_rec, bob_rec]) = None
   \<and> add_user env0 create_owner (load_user env0 alice_rec) (Some [alice_rec, bob_rec])
       = (Inr \<lparr> ur_id = ''id-new'', ur_username = ''ADMIN'', ur_display_name = None,
                 ur_is_admin = True, ur_avatar_url = None \<rparr>,
          Some [alice_rec, bob_rec, dict_of (new_user_record env0 create_owner)])
   \<and> is_owner (new_user_record env0 create_owner)
   \<and> is_admin (new_user_record env0 create_owner)
   \<and> create_user env0 create_owner (Some (load_user env0 alice_rec)) (Some [alice_rec, bob_rec])
       = (Inl (PermissionError (''Cannot create user with owner username. ''
                                 @ ''Owner account must be created via initial setup.'')),
          Some [alice_rec, bob_rec])"
  by code_simp
section \<open>Properties of the connection registry\<close>

lemma send_text_outcome [simp]: "outcome (snd (send_text n c msg)) = outcome n"
  by (simp add: send_text_def split: option.splits)

lemma broadcast_loop_insert:
  "broadcast_loop msg (c # cs) n D =
     (if outcome n c = None
      then broadcast_loop msg cs (n\<lparr>sent := (sent n)(c := sent n c @ [msg])\<rparr>) D
      else broadcast_loop msg cs n (insert c D))"
  by (auto simp: send_text_def split: option.splits exn.splits)

lemma broadcast_loop_disconnected:
  "snd (broadcast_loop msg cs n D) = D \<union> {c \<in> set cs. outcome n c \<noteq> None}"
proof (induction cs arbitrary: n D)
  case Nil
  then show ?case by simp
next
  case (Cons c cs)
  show ?case
    unfolding broadcast_loop_insert by (auto simp: Cons.IH)
qed

lemma broadcast_loop_sent:
  "distinct cs \<Longrightarrow>
   sent (fst (broadcast_loop msg cs n D)) c =
     (if c \<in> set cs \<and> outcome n c = None then sent n c @ [msg] else sent n c)"
proof (induction cs arbitrary: n D)
  case Nil
  then show ?case by simp
next
  case (Cons a cs)
  then have d: "distinct cs" and na: "a \<notin> set cs" by simp_all
  show ?case
    unfolding broadcast_loop_insert using na by (auto simp: Cons.IH[OF d])
qed

lemma disconnect_each_result:
  "active_connections m ''all'' \<noteq> None \<Longrightarrow>
   disconnect_each cs m =
     (None, m\<lparr>active_connections :=
                (\<lambda>g. map_option (\<lambda>s. s - set cs) (active_connections m g))\<rparr>)"
proof (induction cs arbitrary: m)
  case Nil
  have "(\<lambda>g. map_option (\<lambda>s. s) (active_connections m g)) = active_connections m"
    by (simp add: option.map_ident)
  then show ?case by simp
next
  case (Cons c cs)
  let ?m' = "m\<lparr>active_connections :=
                    (\<lambda>g. map_option (\<lambda>s. s - {c}) (active_connections m g))\<rparr>"
  have d: "disconnect m c = (None, ?m')"
    using Cons.prems by (auto simp: disconnect_def Let_def split: option.splits)
  have a: "active_connections ?m' ''all'' \<noteq> None" using Cons.prems by simp
  have e: "(\<lambda>g. map_option (\<lambda>s. s - set cs) (active_connections ?m' g))
           = (\<lambda>g. map_option (\<lambda>s. s - set (c # cs)) (active_connections m g))"
    by (auto simp: option.map_comp comp_def intro!: ext option.map_cong)
  show ?case
    unfolding disconnect_each.simps d prod.case option.case Cons.IH[OF a] e by simp
qed

text \<open>
  Claim C8. Let a group hold a finite set of connections of which exactly one, \<open>c0\<close>,
  has a transport on which \<open>send_text\<close> raises, in a registry that has the key \<open>all\<close>
  (as every registry has from \<open>__init__\<close> on). Then, whatever the order of iteration,
  \<open>broadcast\<close> returns with no exception; each of the other connections of the group,
  one fewer than the group had, has received the message once more and no other connection
  has received anything; and \<open>c0\<close> is removed from the group and, as \<open>disconnect\<close>
  does, from every group, all other membership staying as it was.
\<close>

theorem broadcast_prunes_failing_connection:
  assumes "iter_ok iter"
    and "active_connections m grp = Some group_set" and "finite group_set"
    and "active_connections m ''all'' \<noteq> None"
    and "c0 \<in> group_set" and "outcome n c0 \<noteq> None"
    and "\<forall>c\<in>group_set - {c0}. outcome n c = None"
  shows "fst (broadcast iter message grp m n) = None
         \<and> (\<forall>c\<in>group_set - {c0}.
               sent (snd (snd (broadcast iter message grp m n))) c = sent n c @ [message])
         \<and> (\<forall>c. c \<notin> group_set - {c0} \<longrightarrow>
               sent (snd (snd (broadcast iter message grp m n))) c = sent n c)
         \<and> active_connections (fst (snd (broadcast iter message grp m n))) grp
             = Some (group_set - {c0})
         \<and> card (group_set - {c0}) = card group_set - 1
         \<and> (\<forall>g. active_connections (fst (snd (broadcast iter message grp m n))) g
               = map_option (\<lambda>s. s - {c0}) (active_connections m g))"
proof -
  have it: "set (iter group_set) = group_set" "distinct (iter group_set)"
    using assms(1,3) by (simp_all add: iter_ok_def)
  let ?n' = "fst (broadcast_loop message (iter group_set) n {})"
  have failing: "{c \<in> group_set. outcome n c \<noteq> None} = {c0}"
  proof (rule set_eqI)
    fix x
    show "x \<in> {c \<in> group_set. outcome n c \<noteq> None} \<longleftrightarrow> x \<in> {c0}"
    proof (cases "x = c0")
      case True
      then show ?thesis using assms(5,6) by simp
    next
      case False
      then have "x \<in> group_set \<Longrightarrow> outcome n x = None" using assms(7) by simp
      with False show ?thesis by auto
    qed
  qed
  have "snd (broadcast_loop message (iter group_set) n {}) = {c0}"
    using broadcast_loop_disconnected[of message "iter group_set" n "{}"] it(1) failing by simp
  note loop = this
  have snt: "sent ?n' c = (if c \<in> group_set \<and> outcome n c = None then sent n c @ [message]
                           else sent n c)" for c
    using broadcast_loop_sent[OF it(2), of message n "{}" c] it(1) by simp
  have it0: "set (iter {c0}) = {c0}"
    using assms(1) by (simp add: iter_ok_def)
  let ?m' = "m\<lparr>active_connections :=
                (\<lambda>g. map_option (\<lambda>s. s - {c0}) (active_connections m g))\<rparr>"
  have clean: "disconnect_each (iter {c0}) m = (None, ?m')"
    using disconnect_each_result[OF assms(4), of "iter {c0}"] it0 by simp
  have b: "broadcast iter message grp m n = (None, ?m', ?n')"
    using assms(2) loop clean by (simp add: broadcast_def case_prod_beta)
  have 1: "\<forall>c\<in>group_set - {c0}. sent ?n' c = sent n c @ [message]"
    using assms(7) by (simp add: snt)
  have 2: "\<forall>c. c \<notin> group_set - {c0} \<longrightarrow> sent ?n' c = sent n c"
    using assms(6) by (auto simp: snt)
  have 3: "card (group_set - {c0}) = card group_set - 1"
    using assms(5) by simp
  show ?thesis unfolding b using 1 2 3 assms(2) by simp
qed

theorem broadcast_prunes_failing_connection_witness:
  "iter_ok sorted_list_of_set
   \<and> active_connections manager3 ''all'' = Some {1, 2, 3}
   \<and> active_connections manager3 ''authenticated'' = Some {2}
   \<and> outcome net2closed 2 = Some (RuntimeError ''WebSocket is not connected'')
   \<and> outcome net2closed 1 = None \<and> outcome net2closed 3 = None
   \<and> fst (broadcast sorted_list_of_set ''hi'' ''all'' manager3 net2closed) = None
   \<and> sent (snd (snd (broadcast sorted_list_of_set ''hi'' ''all'' manager3 net2closed))) 1 = [''hi'']
   \<and> sent (snd (snd (broadcast sorted_list_of_set ''hi'' ''all'' manager3 net2closed))) 3 = [''hi'']
   \<and> sent (snd (snd (broadcast sorted_list_of_set ''hi'' ''all'' manager3 net2closed))) 2 = []
   \<and> active_connections (fst (snd (broadcast sorted_list_of_set ''hi'' ''all'' manager3 net2closed)))
        ''all'' = Some {1, 3}
   \<and> active_connections (fst (snd (broadcast sorted_list_of_set ''hi'' ''all'' manager3 net2closed)))
        ''authenticated'' = Some {}"
proof -
  let ?b = "broadcast sorted_list_of_set ''hi'' ''all'' manager3 net2closed"
  have i: "iter_ok sorted_list_of_set" by (simp add: iter_ok_def)
  have a: "active_connections manager3 ''all'' = Some {1, 2, 3}" by code_simp
  have a': "active_connections manager3 ''authenticated'' = Some {2}" by code_simp
  have f: "finite {1, 2, 3::nat}" by simp
  have al: "active_connections manager3 ''all'' \<noteq> None" using a by simp
  have c: "(2::nat) \<in> {1, 2, 3}" by simp
  have o2: "outcome net2closed 2 = Some (RuntimeError ''WebSocket is not connected'')"
    by (simp add: net2closed_def)
  have o2': "outcome net2closed 2 \<noteq> None" using o2 by simp
  have o1: "outcome net2closed 1 = None" and o3: "outcome net2closed 3 = None"
    by (simp_all add: net2closed_def)
  have o: "\<forall>c\<in>{1, 2, 3} - {2::nat}. outcome net2closed c = None"
    by (simp add: net2closed_def)
  have s0: "sent net2closed c = []" for c by (simp add: net2closed_def)
  have d: "{1, 2, 3} - {2::nat} = {1, 3}" by auto
  note t = broadcast_prunes_failing_connection[OF i a f al c o2' o, of "''hi''"]
  have 1: "fst ?b = None" using t by blast
  have 2: "sent (snd (snd ?b)) 1 = [''hi'']" using t s0 by simp
  have 3: "sent (snd (snd ?b)) 3 = [''hi'']" using t s0 by simp
  have 4: "sent (snd (snd ?b)) 2 = []" using t s0 by simp
  have "active_connections (fst (snd ?b)) ''all'' = Some ({1, 2, 3} - {2})" using t by blast
  then have 5: "active_connections (fst (snd ?b)) ''all'' = Some {1, 3}" using d by simp
  have "active_connections (fst (snd ?b)) ''authenticated''
          = map_option (\<lambda>s. s - {2}) (active_connections manager3 ''authenticated'')"
    using t by blast
  then have 6: "active_connections (fst (snd ?b)) ''authenticated'' = Some {}" using a' by simp
  from i a a' o2 o1 o3 1 2 3 4 5 6 show ?thesis by blast
qed

text \<open>
  Claim C9. \<open>broadcast\<close> with a group name that is not a key of the registry returns
  with no exception and leaves the registry, hence the membership of every group, and the
  transport as they were.
\<close>

theorem broadcast_unknown_group_noop:
  assumes "active_connections m grp = None"
  shows "broadcast iter message grp m n = (None, m, n)"
  using assms by (simp add: broadcast_def)

theorem broadcast_unknown_group_noop_witness:
  "active_connections manager3 ''unknown-group'' = None
   \<and> broadcast sorted_list_of_set ''hi'' ''unknown-group'' manager3 net2closed
        = (None, manager3, net2closed)"
proof -
  have a: "active_connections manager3 ''unknown-group'' = None" by code_simp
  from broadcast_unknown_group_noop[OF a] a show ?thesis by blast
qed

section \<open>Properties of the fronting endpoints\<close>

lemma switch_front_never_succeeds: "fst (switch_front bk) \<noteq> Inr response"
  by (auto simp: switch_front_def switch_front_try_def split: sum.splits if_splits)

lemma switch_single_front_never_succeeds: "fst (switch_single_front bk) \<noteq> Inr response"
  by (auto simp: switch_single_front_def switch_single_front_try_def
      split: sum.splits if_splits exn.splits)

text \<open>
  Claim C1. On a well-formed request for the members \<open>m1\<close> and \<open>m2\<close>, with
  \<open>set_front\<close> and \<open>get_fronters\<close> returning, both handlers switch the front and fetch the
  fronters again, and then fail on the unbound name \<open>broadcast_fronting_update\<close>: the
  request is answered with status 500 and no broadcast is made. By the two lemmas above no
  request to either handler succeeds.
\<close>

theorem front_switch_raises_name_error:
  "switch_front backend0
     = (Inl (HTTPException 500 (''name '' @ [CHR 0x27] @ ''broadcast_fronting_update'' @ [CHR 0x27]
                                 @ '' is not defined'')),
        [Call_set_front (JList [JStr ''m1'', JStr ''m2'']), Call_get_fronters])
   \<and> switch_single_front backend0
     = (Inl (HTTPException 500 (''Failed to switch front: name '' @ [CHR 0x27]
                                 @ ''broadcast_fronting_update'' @ [CHR 0x27] @ '' is not defined'')),
        [Call_set_front (JList [JStr ''m1'']), Call_get_fronters])"
  by code_simp


end
